theory Spec2Isabelle
  imports Complex_Main "HOL-Library.Multiset" "HOL-Library.Option_ord"
begin

section \<open>The remote store\<close>

text \<open>
  Every data access of the application goes through the client of a hosted database.
  The client is not part of the repository: it is the environment of the code. A call
  answers with \<open>{data, error}\<close>, of which one is set. Whether a call fails is decided by
  the environment, so each call takes the error the backend reports, if any
  (\<open>None\<close>: the call succeeds). A call that reports an error leaves the table as it
  was.
\<close>

record pg_error =
  code :: string
  message :: string

text \<open>\<open>from(t).select(...)\<close>: all rows of the table.\<close>

definition select_rows :: "'r list \<Rightarrow> pg_error option \<Rightarrow> pg_error + 'r list" where
  "select_rows rows fault = (case fault of Some e \<Rightarrow> Inl e | None \<Rightarrow> Inr rows)"

text \<open>
  \<open>.order(col, {ascending})\<close>: the rows sorted on a column, the largest first when
  \<open>ascending\<close> is false.
\<close>

definition order_rows :: "('r \<Rightarrow> 'k::linorder) \<Rightarrow> bool \<Rightarrow> 'r list \<Rightarrow> 'r list" where
  "order_rows col ascending rows =
     (if ascending then sort_key col rows else rev (sort_key col rows))"

text \<open>
  \<open>.eq(col, v).single()\<close>: the one row that matches. When no row or more than one
  row matches, the backend answers with no data and the error code PGRST116.
\<close>

definition PGRST116 :: pg_error where
  "PGRST116 = \<lparr>code = ''PGRST116'', message = ''JSON object requested, multiple (or no) rows returned''\<rparr>"

definition select_single :: "('r \<Rightarrow> bool) \<Rightarrow> 'r list \<Rightarrow> pg_error option \<Rightarrow> 'r option \<times> pg_error option" where
  "select_single matches rows fault =
     (case fault of
        Some e \<Rightarrow> (None, Some e)
      | None \<Rightarrow>
          (case filter matches rows of
             [r] \<Rightarrow> (Some r, None)
           | _ \<Rightarrow> (None, Some PGRST116)))"

text \<open>\<open>.update(patch).eq(col, v)\<close>: every matching row is patched; no row matching is no error.\<close>

definition update_rows :: "('r \<Rightarrow> 'r) \<Rightarrow> ('r \<Rightarrow> bool) \<Rightarrow> 'r list \<Rightarrow> pg_error option \<Rightarrow> pg_error option \<times> 'r list" where
  "update_rows patch matches rows fault =
     (case fault of
        Some e \<Rightarrow> (Some e, rows)
      | None \<Rightarrow> (None, map (\<lambda>r. if matches r then patch r else r) rows))"

text \<open>\<open>.insert(row)\<close>: the table gains the row.\<close>

definition insert_row :: "'r \<Rightarrow> 'r list \<Rightarrow> pg_error option \<Rightarrow> pg_error option \<times> 'r list" where
  "insert_row r rows fault =
     (case fault of
        Some e \<Rightarrow> (Some e, rows)
      | None \<Rightarrow> (None, rows @ [r]))"

section \<open>User and role management (UserManagement)\<close>

subsection \<open>Data\<close>

datatype app_role = Admin | User

record profile =
  profile_id :: string
  profile_email :: string
  profile_full_name :: "string option"
  profile_created_at :: string

record user_role =
  user_id :: string
  role :: app_role

record UserWithRole =
  u_id :: string
  u_email :: string
  u_full_name :: "string option"
  u_role :: app_role
  u_created_at :: string

text \<open>The two tables the view reads and writes.\<close>

record backend =
  profiles :: "profile list"
  user_roles :: "user_role list"

text \<open>The signed-in user of \<open>useAuth()\<close>; \<open>None\<close> when nobody is signed in.\<close>

record auth_user =
  auth_id :: string
  auth_email :: string

text \<open>The component's state: \<open>useState([])\<close>, \<open>useState(true)\<close>, \<open>useState(false)\<close>.\<close>

record um_state =
  users :: "UserWithRole list"
  loading :: bool
  hasAdmin :: bool

definition initial_state :: um_state where
  "initial_state = \<lparr>users = [], loading = True, hasAdmin = False\<rparr>"

text \<open>
  A toast: its title (\<open>Sucesso\<close>, or \<open>Erro\<close> with the destructive variant). Of the
  description, the interpolated \<open>error.message\<close> is kept.
\<close>

datatype toast = Toast_Sucesso | Toast_Erro string | Toast_Erro_no_user

subsection \<open>fetchUsers\<close>

text \<open>The left join of \<open>fetchUsers\<close>: \<open>roles.find(...)\<close>, then \<open>userRole?.role || 'user'\<close>.\<close>

definition format_user :: "user_role list \<Rightarrow> profile \<Rightarrow> UserWithRole" where
  "format_user roles p =
     (let userRole = find (\<lambda>r. user_id r = profile_id p) roles
      in \<lparr>u_id = profile_id p,
          u_email = profile_email p,
          u_full_name = profile_full_name p,
          u_role = (case userRole of None \<Rightarrow> User | Some r \<Rightarrow> role r),
          u_created_at = profile_created_at p\<rparr>)"

definition formattedUsers :: "profile list \<Rightarrow> user_role list \<Rightarrow> UserWithRole list" where
  "formattedUsers ps roles = map (format_user roles) ps"

definition adminExists :: "UserWithRole list \<Rightarrow> bool" where
  "adminExists us = list_ex (\<lambda>u. u_role u = Admin) us"

text \<open>
  \<open>fetchUsers\<close>: two selects, the join, the two state updates; an error of either
  select is thrown, caught and shown as a toast with the state left as it was; the
  \<open>finally\<close> clears \<open>loading\<close> in every case. \<open>pf\<close> and \<open>rf\<close> are the errors the backend
  reports for the two selects.
\<close>

definition fetchUsers :: "backend \<Rightarrow> pg_error option \<Rightarrow> pg_error option \<Rightarrow> um_state \<Rightarrow> um_state \<times> toast list" where
  "fetchUsers b pf rf st =
     (case select_rows (profiles b) pf of
        Inl profileError \<Rightarrow> (st\<lparr>loading := False\<rparr>, [Toast_Erro (message profileError)])
      | Inr ps \<Rightarrow>
          (case select_rows (user_roles b) rf of
             Inl roleError \<Rightarrow> (st\<lparr>loading := False\<rparr>, [Toast_Erro (message roleError)])
           | Inr roles \<Rightarrow>
               (let fu = formattedUsers ps roles
                in (st\<lparr>users := fu, hasAdmin := adminExists fu, loading := False\<rparr>, []))))"

subsection \<open>The three role actions\<close>

text \<open>
  \<open>promoteCurrentUserToAdmin\<close>. \<open>cf\<close> is the error the backend reports for the
  existence check, \<open>uf\<close> for the update or insert, \<open>pf\<close> and \<open>rf\<close> for the reload.
\<close>

definition promoteCurrentUserToAdmin ::
  "auth_user option \<Rightarrow> pg_error option \<Rightarrow> pg_error option \<Rightarrow> pg_error option \<Rightarrow> pg_error option
     \<Rightarrow> backend \<times> um_state \<Rightarrow> backend \<times> um_state \<times> toast list" where
  "promoteCurrentUserToAdmin currentUser cf uf pf rf bs =
     (case bs of (b, st) \<Rightarrow>
      (case currentUser of
         None \<Rightarrow> (b, st, [Toast_Erro_no_user])
       | Some cu \<Rightarrow>
           (case select_single (\<lambda>r. user_id r = auth_id cu) (user_roles b) cf of
              (existingRole, checkError) \<Rightarrow>
                (case (if checkError \<noteq> None \<and> code (the checkError) \<noteq> ''PGRST116''
                       then checkError else None) of
                   Some e \<Rightarrow> (b, st, [Toast_Erro (message e)])
                 | None \<Rightarrow>
                     (case (if existingRole \<noteq> None
                            then update_rows (\<lambda>r. r\<lparr>role := Admin\<rparr>) (\<lambda>r. user_id r = auth_id cu)
                                   (user_roles b) uf
                            else insert_row \<lparr>user_id = auth_id cu, role = Admin\<rparr> (user_roles b) uf) of
                        (Some e, roles') \<Rightarrow> (b\<lparr>user_roles := roles'\<rparr>, st, [Toast_Erro (message e)])
                      | (None, roles') \<Rightarrow>
                          (case fetchUsers (b\<lparr>user_roles := roles'\<rparr>) pf rf st of
                             (st', ts) \<Rightarrow> (b\<lparr>user_roles := roles'\<rparr>, st', Toast_Sucesso # ts)))))))"

text \<open>\<open>promoteToAdmin\<close>: one update on \<open>user_id\<close>, with no existence check, then the reload.\<close>

definition promoteToAdmin ::
  "string \<Rightarrow> pg_error option \<Rightarrow> pg_error option \<Rightarrow> pg_error option
     \<Rightarrow> backend \<times> um_state \<Rightarrow> backend \<times> um_state \<times> toast list" where
  "promoteToAdmin userId uf pf rf bs =
     (case bs of (b, st) \<Rightarrow>
      (case update_rows (\<lambda>r. r\<lparr>role := Admin\<rparr>) (\<lambda>r. user_id r = userId) (user_roles b) uf of
         (Some e, roles') \<Rightarrow> (b\<lparr>user_roles := roles'\<rparr>, st, [Toast_Erro (message e)])
       | (None, roles') \<Rightarrow>
           (case fetchUsers (b\<lparr>user_roles := roles'\<rparr>) pf rf st of
              (st', ts) \<Rightarrow> (b\<lparr>user_roles := roles'\<rparr>, st', Toast_Sucesso # ts))))"

text \<open>\<open>demoteToUser\<close>: the same with the role \<open>'user'\<close>.\<close>

definition demoteToUser ::
  "string \<Rightarrow> pg_error option \<Rightarrow> pg_error option \<Rightarrow> pg_error option
     \<Rightarrow> backend \<times> um_state \<Rightarrow> backend \<times> um_state \<times> toast list" where
  "demoteToUser userId uf pf rf bs =
     (case bs of (b, st) \<Rightarrow>
      (case update_rows (\<lambda>r. r\<lparr>role := User\<rparr>) (\<lambda>r. user_id r = userId) (user_roles b) uf of
         (Some e, roles') \<Rightarrow> (b\<lparr>user_roles := roles'\<rparr>, st, [Toast_Erro (message e)])
       | (None, roles') \<Rightarrow>
           (case fetchUsers (b\<lparr>user_roles := roles'\<rparr>) pf rf st of
              (st', ts) \<Rightarrow> (b\<lparr>user_roles := roles'\<rparr>, st', Toast_Sucesso # ts))))"

subsection \<open>What the component renders\<close>

datatype action = Promote string | Demote string

record user_card =
  card_user :: UserWithRole
  badge_you :: bool
  buttons :: "action list"

record main_view =
  bootstrap_card :: bool
  cards :: "user_card list"
  empty_note :: bool

datatype view = Carregando | Rendered main_view

text \<open>
  One entry of \<open>users.map(...)\<close>. \<open>currentUser?.id\<close> is undefined when nobody is signed
  in, and then differs from every id.
\<close>

definition render_user :: "auth_user option \<Rightarrow> UserWithRole \<Rightarrow> user_card" where
  "render_user currentUser u =
     \<lparr>card_user = u,
      badge_you = (Some (u_id u) = map_option auth_id currentUser),
      buttons =
        (if u_role u = User then [Promote (u_id u)]
         else if Some (u_id u) \<noteq> map_option auth_id currentUser then [Demote (u_id u)]
         else [])\<rparr>"

definition render :: "auth_user option \<Rightarrow> um_state \<Rightarrow> view" where
  "render currentUser st =
     (if loading st then Carregando
      else Rendered
        \<lparr>bootstrap_card = (\<not> hasAdmin st),
         cards = map (render_user currentUser) (users st),
         empty_note = (length (users st) = 0)\<rparr>)"

text \<open>Whether the bootstrap card is on screen, and the buttons that are.\<close>

definition bootstrap_offered :: "view \<Rightarrow> bool" where
  "bootstrap_offered v = (case v of Carregando \<Rightarrow> False | Rendered m \<Rightarrow> bootstrap_card m)"

definition offered_actions :: "view \<Rightarrow> action list" where
  "offered_actions v = (case v of Carregando \<Rightarrow> [] | Rendered m \<Rightarrow> concat (map buttons (cards m)))"

text \<open>
  The states the component can be in: the state of the first render, and every state
  \<open>fetchUsers\<close> leaves (no other code calls \<open>setUsers\<close>, \<open>setHasAdmin\<close> or
  \<open>setLoading\<close>).
\<close>

inductive reachable :: "um_state \<Rightarrow> bool" where
  reachable_initial: "reachable initial_state"
| reachable_fetch: "reachable st \<Longrightarrow> reachable (fst (fetchUsers b pf rf st))"

section \<open>Completed services (getCompletedServices, addCompletedService)\<close>

subsection \<open>Values of the language\<close>

text \<open>
  A property of an object read at run time: absent (\<open>undefined\<close>), \<open>null\<close>, or a
  value. A number is \<open>NaN\<close> or a finite number (the infinities, which JSON sends as
  \<open>null\<close> like \<open>NaN\<close>, are left out); a number of a JSON document is finite and
  \<open>Number\<close> leaves it as it is, so no arithmetic on it takes place.
\<close>

datatype 'a js = Undefined | Null | Val 'a

datatype jsnum = NaN | Num real

text \<open>\<open>Number(x)\<close>: \<open>Number(undefined)\<close> is \<open>NaN\<close>, \<open>Number(null)\<close> is \<open>0\<close>.\<close>

definition Number :: "real js \<Rightarrow> jsnum" where
  "Number x = (case x of Undefined \<Rightarrow> NaN | Null \<Rightarrow> Num 0 | Val n \<Rightarrow> Num n)"

text \<open>\<open>x || ""\<close> on a string: \<open>undefined\<close>, \<open>null\<close> and \<open>""\<close> are falsy.\<close>

definition or_empty :: "string js \<Rightarrow> string" where
  "or_empty x = (case x of Val s \<Rightarrow> (if s \<noteq> [] then s else []) | _ \<Rightarrow> [])"

text \<open>A number as \<open>JSON.stringify\<close> sends it: \<open>NaN\<close> becomes \<open>null\<close>.\<close>

definition json_number :: "jsnum \<Rightarrow> real js" where
  "json_number n = (case n of NaN \<Rightarrow> Null | Num x \<Rightarrow> Val x)"

text \<open>\<open>user?.id\<close>.\<close>

definition optional_id :: "auth_user option \<Rightarrow> string js" where
  "optional_id user = (case user of None \<Rightarrow> Undefined | Some u \<Rightarrow> Val (auth_id u))"

subsection \<open>Data\<close>

text \<open>
  The columns of \<open>completed_services\<close> that the code writes, and a row of the table:
  the columns and the \<open>id\<close> the backend gives it. Dates and timestamps are values of a
  linearly ordered type \<open>'t\<close>, ordered as the backend orders them.
\<close>

record 't completed_service_columns =
  mechanic_id :: "string js"
  service_ids :: "string list js"
  total_amount :: "real js"
  received_amount :: "real js"
  completion_date :: "'t js"
  created_at :: "'t js"
  created_by :: "string js"

record 't completed_service_row = "'t completed_service_columns" +
  row_id :: string

text \<open>
  \<open>Omit<CompletedService, "id">\<close> and \<open>CompletedService\<close>, as the objects are at run
  time: \<open>mechanicId\<close> is always a string; the other fields are whatever the row held.
\<close>

record 't CompletedService_without_id =
  mechanicId :: string
  serviceIds :: "string list js"
  totalAmount :: jsnum
  receivedAmount :: jsnum
  completionDate :: "'t js"
  createdAt :: "'t js"

record 't CompletedService = "'t CompletedService_without_id" +
  cs_id :: string

datatype console = Console_error string pg_error

text \<open>
  The sort key of a column. Where the backend puts a row that has no value in the
  column is its own matter; the model sorts it below the others, and the properties on
  the order speak of rows that have a value.
\<close>

definition column_key :: "'a js \<Rightarrow> 'a option" where
  "column_key x = (case x of Val v \<Rightarrow> Some v | _ \<Rightarrow> None)"

text \<open>
  The row the table gains by an insert: the columns as they were sent, under the id the
  backend gives the row (a column sent undefined is kept so: the default the backend
  puts there is not known to the code).
\<close>

definition new_row :: "string \<Rightarrow> 't completed_service_columns \<Rightarrow> 't completed_service_row" where
  "new_row new_id c =
     \<lparr>mechanic_id = mechanic_id c, service_ids = service_ids c, total_amount = total_amount c,
      received_amount = received_amount c, completion_date = completion_date c,
      created_at = created_at c, created_by = created_by c, row_id = new_id\<rparr>"

subsection \<open>getCompletedServices\<close>

text \<open>The mapping of one row (the arrow function of \<open>data.map\<close>).\<close>

definition to_CompletedService :: "'t completed_service_row \<Rightarrow> 't CompletedService" where
  "to_CompletedService item =
     \<lparr>mechanicId = or_empty (mechanic_id item),
      serviceIds = service_ids item,
      totalAmount = Number (total_amount item),
      receivedAmount = Number (received_amount item),
      completionDate = completion_date item,
      createdAt = created_at item,
      cs_id = row_id item\<rparr>"

text \<open>
  \<open>getCompletedServices\<close> on the table, with the error \<open>sf\<close> the backend reports for
  the select, if any. It returns the list and what it wrote to the console.
\<close>

definition getCompletedServices ::
  "('t::linorder) completed_service_row list \<Rightarrow> pg_error option \<Rightarrow> 't CompletedService list \<times> console list" where
  "getCompletedServices table sf =
     (case select_rows (order_rows (\<lambda>r. column_key (created_at r)) False table) sf of
        Inl error \<Rightarrow> ([], [Console_error ''Error fetching completed services:'' error])
      | Inr data \<Rightarrow> (map to_CompletedService data, []))"

subsection \<open>addCompletedService\<close>

text \<open>
  \<open>addCompletedService\<close>: \<open>user\<close> is the answer of \<open>supabase.auth.getUser()\<close>,
  \<open>new_id\<close> the id the backend gives the new row, \<open>nf\<close> and \<open>sf\<close> the errors the
  backend reports for the insert and for the select that follows. It returns the
  table, the list and what it wrote to the console.
\<close>

definition addCompletedService ::
  "auth_user option \<Rightarrow> string \<Rightarrow> pg_error option \<Rightarrow> pg_error option \<Rightarrow> 't CompletedService_without_id
     \<Rightarrow> ('t::linorder) completed_service_row list
     \<Rightarrow> 't completed_service_row list \<times> 't CompletedService list \<times> console list" where
  "addCompletedService user new_id nf sf completedService table =
     (case insert_row
             (new_row new_id
                \<lparr>mechanic_id = Val (mechanicId completedService),
                 service_ids = serviceIds completedService,
                 total_amount = json_number (totalAmount completedService),
                 received_amount = json_number (receivedAmount completedService),
                 completion_date = completionDate completedService,
                 created_at = createdAt completedService,
                 created_by = optional_id user\<rparr>)
             table nf of
        (Some error, table') \<Rightarrow> (table', [], [Console_error ''Error adding completed service:'' error])
      | (None, table') \<Rightarrow>
          (case getCompletedServices table' sf of (result, logs) \<Rightarrow> (table', result, logs)))"

text \<open>
  A valid input: every field is there and the amounts are numbers.
\<close>

definition valid_input :: "'t CompletedService_without_id \<Rightarrow> bool" where
  "valid_input c =
     (serviceIds c \<noteq> Undefined \<and> serviceIds c \<noteq> Null
      \<and> totalAmount c \<noteq> NaN \<and> receivedAmount c \<noteq> NaN
      \<and> completionDate c \<noteq> Undefined \<and> completionDate c \<noteq> Null
      \<and> createdAt c \<noteq> Undefined \<and> createdAt c \<noteq> Null)"

section \<open>The mechanic form (MechanicForm)\<close>

subsection \<open>Data and form state\<close>

text \<open>\<open>Mechanic\<close>: \<open>specialization\<close> and \<open>phone\<close> are optional properties.\<close>

record Mechanic =
  m_id :: string
  name :: string
  specialization :: "string option"
  phone :: "string option"

text \<open>
  The state that \<open>useForm\<close> keeps: the values of the fields, the default values that
  \<open>reset()\<close> goes back to, and \<open>formState.errors.name\<close> (its message).
\<close>

record form =
  fieldValues :: Mechanic
  defaultValues :: Mechanic
  errors_name :: "string option"

text \<open>What the component calls of its props: \<open>onSubmit(data)\<close> and \<open>onOpenChange(open)\<close>.\<close>

datatype callback = OnSubmit Mechanic | OnOpenChange bool

definition blank :: Mechanic where
  "blank = \<lparr>m_id = [], name = [], specialization = Some [], phone = Some []\<rparr>"

text \<open>\<open>useForm({defaultValues: mechanic || {...}})\<close>.\<close>

definition useForm :: "Mechanic option \<Rightarrow> form" where
  "useForm mechanic =
     (let d = (case mechanic of Some m \<Rightarrow> m | None \<Rightarrow> blank)
      in \<lparr>fieldValues = d, defaultValues = d, errors_name = None\<rparr>)"

text \<open>
  \<open>reset(values)\<close> sets the fields and the defaults to \<open>values\<close>; \<open>reset()\<close> sets the
  fields back to the defaults. Both clear the errors.
\<close>

definition reset :: "Mechanic option \<Rightarrow> form \<Rightarrow> form" where
  "reset v f =
     (case v of
        Some m \<Rightarrow> \<lparr>fieldValues = m, defaultValues = m, errors_name = None\<rparr>
      | None \<Rightarrow> \<lparr>fieldValues = defaultValues f, defaultValues = defaultValues f, errors_name = None\<rparr>)"

text \<open>The effect that runs when \<open>open\<close> or \<open>mechanic\<close> changes.\<close>

definition useEffect_open :: "bool \<Rightarrow> Mechanic option \<Rightarrow> form \<Rightarrow> form" where
  "useEffect_open is_open mechanic f =
     (if is_open \<and> mechanic \<noteq> None then reset mechanic f
      else if \<not> is_open then reset (Some blank) f
      else f)"

subsection \<open>Submitting\<close>

text \<open>
  \<open>onSubmitForm(data)\<close>. \<open>uuid\<close> is the value that \<open>crypto.randomUUID()\<close> returns when
  it is called; it is called in create mode only.
\<close>

definition onSubmitForm :: "Mechanic option \<Rightarrow> string \<Rightarrow> Mechanic \<Rightarrow> form \<Rightarrow> form \<times> callback list" where
  "onSubmitForm mechanic uuid data f =
     (let isEditing = (mechanic \<noteq> None);
          data' = (if \<not> isEditing then data\<lparr>m_id := uuid\<rparr> else data\<lparr>m_id := m_id (the mechanic)\<rparr>)
      in (reset None f, [OnSubmit data', OnOpenChange False]))"

text \<open>The message of \<open>register("name", {required: ...})\<close>, in the string's code units.\<close>

definition name_required :: string where
  "name_required = ''Nome '' @ [CHR 0xE9] @ '' obrigat'' @ [CHR 0xF3] @ ''rio''"

text \<open>
  \<open>handleSubmit(onValid)\<close>: the registered rules are checked; \<open>name\<close> is the only
  field registered with a rule, and \<open>required\<close> refuses the empty string. With an error
  the errors are set and \<open>onValid\<close> is not called; with none they are cleared and
  \<open>onValid\<close> is called with the values of the fields.
\<close>

definition handleSubmit :: "(Mechanic \<Rightarrow> form \<Rightarrow> form \<times> callback list) \<Rightarrow> form \<Rightarrow> form \<times> callback list" where
  "handleSubmit onValid f =
     (if name (fieldValues f) = [] then (f\<lparr>errors_name := Some name_required\<rparr>, [])
      else onValid (fieldValues f) (f\<lparr>errors_name := None\<rparr>))"

text \<open>The form's \<open>onSubmit={handleSubmit(onSubmitForm)}\<close>.\<close>

definition submit :: "Mechanic option \<Rightarrow> string \<Rightarrow> form \<Rightarrow> form \<times> callback list" where
  "submit mechanic uuid f = handleSubmit (onSubmitForm mechanic uuid) f"

text \<open>The paragraph under the name field: \<open>errors.name && <p>{errors.name.message}</p>\<close>.\<close>

definition name_error_shown :: "form \<Rightarrow> string option" where
  "name_error_shown f = errors_name f"

section \<open>Properties of the user and role management\<close>

lemma fetchUsers_ok:
  "fetchUsers b None None st =
     (st\<lparr>users := formattedUsers (profiles b) (user_roles b),
         hasAdmin := adminExists (formattedUsers (profiles b) (user_roles b)),
         loading := False\<rparr>, [])"
  by (simp add: fetchUsers_def select_rows_def Let_def)

lemma find_no_match: "(\<forall>r\<in>set roles. \<not> P r) \<Longrightarrow> find P roles = None"
  by (induction roles) auto

text \<open>
  C3. A profile with no role record is joined to the role \<open>'user'\<close>: after a
  \<open>fetchUsers\<close> that the backend answers, the list has one entry per profile, in the
  order of the profiles, and the entry of a profile whose id no role record carries
  has the role \<open>User\<close>. The example of the specification: the one profile u1 and no
  role record give the one user u1 with the role \<open>User\<close>, and \<open>hasAdmin\<close> is false.
\<close>

theorem fetchUsers_role_defaults_to_user:
  "length (users (fst (fetchUsers b None None st))) = length (profiles b)
   \<and> (\<forall>i < length (profiles b).
        (\<forall>r \<in> set (user_roles b). user_id r \<noteq> profile_id (profiles b ! i)) \<longrightarrow>
        u_id (users (fst (fetchUsers b None None st)) ! i) = profile_id (profiles b ! i)
        \<and> u_role (users (fst (fetchUsers b None None st)) ! i) = User)
   \<and> fetchUsers
        \<lparr>profiles = [\<lparr>profile_id = ''u1'', profile_email = ''a@x.com'',
                      profile_full_name = fn, profile_created_at = ca\<rparr>],
         user_roles = []\<rparr> None None st
      = (st\<lparr>users := [\<lparr>u_id = ''u1'', u_email = ''a@x.com'', u_full_name = fn,
                        u_role = User, u_created_at = ca\<rparr>],
             hasAdmin := False, loading := False\<rparr>, [])"
proof (intro conjI allI impI)
  show "length (users (fst (fetchUsers b None None st))) = length (profiles b)"
    by (simp add: fetchUsers_ok formattedUsers_def)
next
  fix i
  assume i: "i < length (profiles b)"
    and none: "\<forall>r \<in> set (user_roles b). user_id r \<noteq> profile_id (profiles b ! i)"
  have "find (\<lambda>r. user_id r = profile_id (profiles b ! i)) (user_roles b) = None"
    using none by (intro find_no_match) simp
  with i show "u_id (users (fst (fetchUsers b None None st)) ! i) = profile_id (profiles b ! i)"
    and "u_role (users (fst (fetchUsers b None None st)) ! i) = User"
    by (simp_all add: fetchUsers_ok formattedUsers_def format_user_def)
next
  show "fetchUsers
        \<lparr>profiles = [\<lparr>profile_id = ''u1'', profile_email = ''a@x.com'',
                      profile_full_name = fn, profile_created_at = ca\<rparr>],
         user_roles = []\<rparr> None None st
      = (st\<lparr>users := [\<lparr>u_id = ''u1'', u_email = ''a@x.com'', u_full_name = fn,
                        u_role = User, u_created_at = ca\<rparr>],
             hasAdmin := False, loading := False\<rparr>, [])"
    by (simp add: fetchUsers_ok formattedUsers_def format_user_def adminExists_def)
qed

theorem fetchUsers_role_defaults_to_user_witness:
  "(0::nat) < length (profiles \<lparr>profiles = [\<lparr>profile_id = ''u1'', profile_email = ''a@x.com'',
                      profile_full_name = None, profile_created_at = ''2024-01-01''\<rparr>],
         user_roles = [\<lparr>user_id = ''u2'', role = Admin\<rparr>]\<rparr>)
   \<and> u_role (users (fst (fetchUsers \<lparr>profiles = [\<lparr>profile_id = ''u1'', profile_email = ''a@x.com'',
                      profile_full_name = None, profile_created_at = ''2024-01-01''\<rparr>],
         user_roles = [\<lparr>user_id = ''u2'', role = Admin\<rparr>]\<rparr> None None initial_state)) ! 0) = User"
  using fetchUsers_role_defaults_to_user
    [of "\<lparr>profiles = [\<lparr>profile_id = ''u1'', profile_email = ''a@x.com'',
                      profile_full_name = None, profile_created_at = ''2024-01-01''\<rparr>],
         user_roles = [\<lparr>user_id = ''u2'', role = Admin\<rparr>]\<rparr>" initial_state]
  by simp

lemma reachable_hasAdmin:
  "reachable st \<Longrightarrow> hasAdmin st = adminExists (users st)"
proof (induction rule: reachable.induct)
  case reachable_initial
  show ?case by (simp add: initial_state_def adminExists_def)
next
  case (reachable_fetch st b pf rf)
  then show ?case
    by (cases pf; cases rf) (simp_all add: fetchUsers_def select_rows_def Let_def)
qed

text \<open>
  C2 (as amended). In every state the component reaches, \<open>hasAdmin\<close> is true exactly
  when some joined user has the role \<open>'admin'\<close>, and the bootstrap card is rendered
  exactly when loading has finished and no joined user is an admin. While the first
  load is running the component renders only the placeholder, so the card is absent
  although \<open>hasAdmin\<close> is false.
\<close>

theorem bootstrap_offered_iff_no_admin:
  "reachable st \<Longrightarrow>
     (hasAdmin st \<longleftrightarrow> (\<exists>u \<in> set (users st). u_role u = Admin))
     \<and> (bootstrap_offered (render currentUser st) \<longleftrightarrow>
          \<not> loading st \<and> \<not> (\<exists>u \<in> set (users st). u_role u = Admin))"
  using reachable_hasAdmin [of st]
  by (auto simp: adminExists_def list_ex_iff render_def bootstrap_offered_def)

text \<open>
  The first render: \<open>hasAdmin\<close> is false and the card is not rendered, so "shown
  exactly when \<open>hasAdmin\<close> is false" fails there.
\<close>

theorem bootstrap_hidden_while_loading_counterexample:
  "\<not> (bootstrap_offered (render None initial_state) \<longleftrightarrow> \<not> hasAdmin initial_state)"
  by (simp add: render_def bootstrap_offered_def initial_state_def)

theorem bootstrap_offered_iff_no_admin_witness:
  "hasAdmin (fst (fetchUsers
      \<lparr>profiles = [\<lparr>profile_id = ''u1'', profile_email = ''a@x.com'',
                    profile_full_name = None, profile_created_at = ''2024-01-01''\<rparr>],
       user_roles = [\<lparr>user_id = ''u1'', role = Admin\<rparr>]\<rparr> None None initial_state))
   \<and> \<not> bootstrap_offered (render None (fst (fetchUsers
      \<lparr>profiles = [\<lparr>profile_id = ''u1'', profile_email = ''a@x.com'',
                    profile_full_name = None, profile_created_at = ''2024-01-01''\<rparr>],
       user_roles = [\<lparr>user_id = ''u1'', role = Admin\<rparr>]\<rparr> None None initial_state)))"
  using bootstrap_offered_iff_no_admin [OF reachable_fetch [OF reachable_initial],
      of "\<lparr>profiles = [\<lparr>profile_id = ''u1'', profile_email = ''a@x.com'',
                    profile_full_name = None, profile_created_at = ''2024-01-01''\<rparr>],
       user_roles = [\<lparr>user_id = ''u1'', role = Admin\<rparr>]\<rparr>" None None None]
  by (simp add: fetchUsers_ok formattedUsers_def format_user_def adminExists_def)

lemma not_User_iff: "r \<noteq> User \<longleftrightarrow> r = Admin"
  by (cases r) simp_all

lemma buttons_Demote_iff:
  "Demote uid \<in> set (buttons (render_user currentUser u)) \<longleftrightarrow>
     u_id u = uid \<and> u_role u = Admin \<and> map_option auth_id currentUser \<noteq> Some uid"
  by (cases currentUser) (auto simp: render_user_def not_User_iff)

text \<open>
  C10. A demote button on screen always targets a listed admin whose id is not the
  signed-in user's id; the card of a user shows the demote button exactly when the
  user is an admin other than the signed-in user. So no demote button for the
  signed-in user is ever rendered.
\<close>

theorem demote_never_offered_for_current_user:
  "(Demote uid \<in> set (offered_actions (render currentUser st)) \<longrightarrow>
      (\<exists>u \<in> set (users st). u_id u = uid \<and> u_role u = Admin)
      \<and> map_option auth_id currentUser \<noteq> Some uid)
   \<and> (buttons (render_user currentUser u) = [Demote (u_id u)] \<longleftrightarrow>
        u_role u = Admin \<and> map_option auth_id currentUser \<noteq> Some (u_id u))"
proof (intro conjI impI)
  assume "Demote uid \<in> set (offered_actions (render currentUser st))"
  then obtain u where u: "u \<in> set (users st)"
    and d: "Demote uid \<in> set (buttons (render_user currentUser u))"
    by (auto simp: offered_actions_def render_def split: if_splits)
  from d have *: "u_id u = uid" "u_role u = Admin" "map_option auth_id currentUser \<noteq> Some uid"
    by (simp_all add: buttons_Demote_iff)
  from u * show "\<exists>u \<in> set (users st). u_id u = uid \<and> u_role u = Admin" by blast
  from * show "map_option auth_id currentUser \<noteq> Some uid" by simp
next
  show "buttons (render_user currentUser u) = [Demote (u_id u)] \<longleftrightarrow>
        u_role u = Admin \<and> map_option auth_id currentUser \<noteq> Some (u_id u)"
    by (cases currentUser) (auto simp: render_user_def not_User_iff)
qed

theorem demote_never_offered_for_current_user_witness:
  "Demote ''u2'' \<in> set (offered_actions (render (Some \<lparr>auth_id = ''u1'', auth_email = ''a@x.com''\<rparr>)
      \<lparr>users = [\<lparr>u_id = ''u1'', u_email = ''a@x.com'', u_full_name = None, u_role = Admin, u_created_at = ''2024-01-01''\<rparr>,
                \<lparr>u_id = ''u2'', u_email = ''b@x.com'', u_full_name = None, u_role = Admin, u_created_at = ''2024-01-02''\<rparr>],
       loading = False, hasAdmin = True\<rparr>))
   \<and> Demote ''u1'' \<notin> set (offered_actions (render (Some \<lparr>auth_id = ''u1'', auth_email = ''a@x.com''\<rparr>)
      \<lparr>users = [\<lparr>u_id = ''u1'', u_email = ''a@x.com'', u_full_name = None, u_role = Admin, u_created_at = ''2024-01-01''\<rparr>,
                \<lparr>u_id = ''u2'', u_email = ''b@x.com'', u_full_name = None, u_role = Admin, u_created_at = ''2024-01-02''\<rparr>],
       loading = False, hasAdmin = True\<rparr>))
   \<and> map_option auth_id (Some \<lparr>auth_id = ''u1'', auth_email = ''a@x.com''\<rparr>) \<noteq> Some ''u2''"
  using demote_never_offered_for_current_user
    [of "''u2''" "Some \<lparr>auth_id = ''u1'', auth_email = ''a@x.com''\<rparr>"
      "\<lparr>users = [\<lparr>u_id = ''u1'', u_email = ''a@x.com'', u_full_name = None, u_role = Admin, u_created_at = ''2024-01-01''\<rparr>,
                \<lparr>u_id = ''u2'', u_email = ''b@x.com'', u_full_name = None, u_role = Admin, u_created_at = ''2024-01-02''\<rparr>],
       loading = False, hasAdmin = True\<rparr>"]
  by (simp add: offered_actions_def render_def render_user_def)

lemma select_single_ok:
  "select_single P rows None =
     (if length (filter P rows) = 1 then (Some (hd (filter P rows)), None) else (None, Some PGRST116))"
  by (cases "filter P rows"; cases "tl (filter P rows)") (auto simp: select_single_def split: list.splits)

lemma code_PGRST116: "code PGRST116 = ''PGRST116''"
  by (simp add: PGRST116_def)

lemma at_most_one_match:
  "length (filter P rows) \<le> 1 \<Longrightarrow> length (filter P rows) = 1 \<longleftrightarrow> (\<exists>r \<in> set rows. P r)"
proof -
  assume le: "length (filter P rows) \<le> 1"
  have "length (filter P rows) = 1 \<longleftrightarrow> filter P rows \<noteq> []"
    using le by (cases "filter P rows") simp_all
  then show ?thesis by (simp add: filter_empty_conv)
qed

lemma find_after_update:
  "\<exists>r \<in> set roles. user_id r = uid \<Longrightarrow>
     find (\<lambda>r. user_id r = uid) (map (\<lambda>r. if user_id r = uid then r\<lparr>role := Admin\<rparr> else r) roles)
       = Some \<lparr>user_id = uid, role = Admin\<rparr>"
proof (induction roles)
  case Nil
  then show ?case by simp
next
  case (Cons r roles)
  show ?case
  proof (cases "user_id r = uid")
    case True
    then have "r\<lparr>role := Admin\<rparr> = \<lparr>user_id = uid, role = Admin\<rparr>" by (cases r) simp
    with True show ?thesis by simp
  next
    case False
    with Cons show ?thesis by simp
  qed
qed

lemma find_after_insert:
  "\<forall>r \<in> set roles. \<not> P r \<Longrightarrow> P new \<Longrightarrow> find P (roles @ [new]) = Some new"
  by (induction roles) auto

lemma promoteCurrentUserToAdmin_ok:
  "promoteCurrentUserToAdmin (Some cu) None None pf rf (b, st) =
           (let roles' =
                  (if length (filter (\<lambda>r. user_id r = auth_id cu) (user_roles b)) = 1
                   then map (\<lambda>r. if user_id r = auth_id cu then r\<lparr>role := Admin\<rparr> else r) (user_roles b)
                   else user_roles b @ [\<lparr>user_id = auth_id cu, role = Admin\<rparr>]);
                b' = b\<lparr>user_roles := roles'\<rparr>
            in (b', fst (fetchUsers b' pf rf st), Toast_Sucesso # snd (fetchUsers b' pf rf st)))"
  by (simp add: promoteCurrentUserToAdmin_def select_single_ok code_PGRST116 update_rows_def
        insert_row_def Let_def split: prod.splits)

lemma promoteCurrentUserToAdmin_check_error:
  "code e \<noteq> ''PGRST116'' \<Longrightarrow>
     promoteCurrentUserToAdmin (Some cu) (Some e) uf pf rf (b, st) = (b, st, [Toast_Erro (message e)])"
  by (simp add: promoteCurrentUserToAdmin_def select_single_def)

lemma promoteCurrentUserToAdmin_write_error:
  "promoteCurrentUserToAdmin (Some cu) None (Some e) pf rf (b, st) = (b, st, [Toast_Erro (message e)])"
  by (simp add: promoteCurrentUserToAdmin_def select_single_ok code_PGRST116 update_rows_def
        insert_row_def)

text \<open>
  C1 (as amended). The bootstrap action, run by a signed-in user on a store that holds
  at most one role record per user: when the backend reports no error for the
  existence check and none for the write, the user's role record is updated to
  \<open>'admin'\<close> when there is one, and the record \<open>{user_id, role: 'admin'}\<close> is inserted
  otherwise; the profiles are untouched, the user's record now carries \<open>Admin\<close>, and the
  state and toasts are those of \<open>fetchUsers\<close> run on the new store after the success
  toast (so a reload that the backend answers lists the user as an admin). When the
  check reports an error other than PGRST116, or the write reports an error, nothing is
  written, nothing is re-fetched, and the error's message is shown in a toast.
\<close>

theorem promoteCurrentUserToAdmin_upserts_then_reloads:
  assumes one: "length (filter (\<lambda>r. user_id r = auth_id cu) (user_roles b)) \<le> 1"
  shows
    "(case promoteCurrentUserToAdmin (Some cu) None None pf rf (b, st) of
        (b', st', ts) \<Rightarrow>
          profiles b' = profiles b
          \<and> user_roles b' =
              (if \<exists>r \<in> set (user_roles b). user_id r = auth_id cu
               then map (\<lambda>r. if user_id r = auth_id cu then r\<lparr>role := Admin\<rparr> else r) (user_roles b)
               else user_roles b @ [\<lparr>user_id = auth_id cu, role = Admin\<rparr>])
          \<and> find (\<lambda>r. user_id r = auth_id cu) (user_roles b') = Some \<lparr>user_id = auth_id cu, role = Admin\<rparr>
          \<and> (st', ts) = (fst (fetchUsers b' pf rf st), Toast_Sucesso # snd (fetchUsers b' pf rf st))
          \<and> (pf = None \<and> rf = None \<longrightarrow>
               users st' = formattedUsers (profiles b') (user_roles b')
               \<and> (\<forall>u \<in> set (users st'). u_id u = auth_id cu \<longrightarrow> u_role u = Admin)))
     \<and> (code e \<noteq> ''PGRST116'' \<longrightarrow>
          promoteCurrentUserToAdmin (Some cu) (Some e) uf pf rf (b, st) = (b, st, [Toast_Erro (message e)]))
     \<and> promoteCurrentUserToAdmin (Some cu) None (Some e) pf rf (b, st) = (b, st, [Toast_Erro (message e)])"
proof -
  let ?mine = "\<lambda>r. user_id r = auth_id cu"
  let ?new = "\<lparr>user_id = auth_id cu, role = Admin\<rparr>"
  let ?roles' = "if \<exists>r \<in> set (user_roles b). ?mine r
                 then map (\<lambda>r. if ?mine r then r\<lparr>role := Admin\<rparr> else r) (user_roles b)
                 else user_roles b @ [?new]"
  let ?b' = "b\<lparr>user_roles := ?roles'\<rparr>"
  have run: "promoteCurrentUserToAdmin (Some cu) None None pf rf (b, st) =
      (?b', fst (fetchUsers ?b' pf rf st), Toast_Sucesso # snd (fetchUsers ?b' pf rf st))"
    using at_most_one_match [OF one] by (simp add: promoteCurrentUserToAdmin_ok Let_def)
  have found: "find ?mine ?roles' = Some ?new"
    by (simp add: find_after_update find_after_insert)
  have shown: "u_role u = Admin"
    if "u \<in> set (formattedUsers (profiles ?b') (user_roles ?b'))" and "u_id u = auth_id cu" for u
  proof -
    from that obtain p where "u = format_user ?roles' p" and "profile_id p = auth_id cu"
      by (auto simp: formattedUsers_def format_user_def Let_def)
    with found show ?thesis by (simp add: format_user_def)
  qed
  have reload: "pf = None \<and> rf = None \<longrightarrow>
      users (fst (fetchUsers ?b' pf rf st)) = formattedUsers (profiles ?b') (user_roles ?b')
      \<and> (\<forall>u \<in> set (users (fst (fetchUsers ?b' pf rf st))). u_id u = auth_id cu \<longrightarrow> u_role u = Admin)"
    using shown by (auto simp: fetchUsers_ok)
  show ?thesis
    unfolding run using found reload
    by (simp add: promoteCurrentUserToAdmin_check_error promoteCurrentUserToAdmin_write_error)
qed


theorem promoteCurrentUserToAdmin_upserts_then_reloads_witness:
  "length (filter (\<lambda>r. user_id r = auth_id \<lparr>auth_id = ''u1'', auth_email = ''a@x.com''\<rparr>) (user_roles \<lparr>profiles = [\<lparr>profile_id = ''u1'', profile_email = ''a@x.com'', profile_full_name = None, profile_created_at = ''2024-01-01''\<rparr>],
        user_roles = [\<lparr>user_id = ''u1'', role = User\<rparr>]\<rparr>)) \<le> 1
   \<and> promoteCurrentUserToAdmin (Some \<lparr>auth_id = ''u1'', auth_email = ''a@x.com''\<rparr>) None None None None
       (\<lparr>profiles = [\<lparr>profile_id = ''u1'', profile_email = ''a@x.com'', profile_full_name = None, profile_created_at = ''2024-01-01''\<rparr>],
        user_roles = [\<lparr>user_id = ''u1'', role = User\<rparr>]\<rparr>,
        \<lparr>users = [\<lparr>u_id = ''u1'', u_email = ''a@x.com'', u_full_name = None, u_role = User, u_created_at = ''2024-01-01''\<rparr>], loading = False, hasAdmin = False\<rparr>)
     = (\<lparr>profiles = [\<lparr>profile_id = ''u1'', profile_email = ''a@x.com'', profile_full_name = None, profile_created_at = ''2024-01-01''\<rparr>],
        user_roles = [\<lparr>user_id = ''u1'', role = Admin\<rparr>]\<rparr>,
        \<lparr>users = [\<lparr>u_id = ''u1'', u_email = ''a@x.com'', u_full_name = None, u_role = Admin, u_created_at = ''2024-01-01''\<rparr>], loading = False, hasAdmin = True\<rparr>,
        [Toast_Sucesso])
   \<and> code \<lparr>code = ''42501'', message = ''permission denied''\<rparr> \<noteq> ''PGRST116''
   \<and> promoteCurrentUserToAdmin (Some \<lparr>auth_id = ''u1'', auth_email = ''a@x.com''\<rparr>) (Some \<lparr>code = ''42501'', message = ''permission denied''\<rparr>) None None None
       (\<lparr>profiles = [\<lparr>profile_id = ''u1'', profile_email = ''a@x.com'', profile_full_name = None, profile_created_at = ''2024-01-01''\<rparr>],
        user_roles = [\<lparr>user_id = ''u1'', role = User\<rparr>]\<rparr>,
        \<lparr>users = [\<lparr>u_id = ''u1'', u_email = ''a@x.com'', u_full_name = None, u_role = User, u_created_at = ''2024-01-01''\<rparr>], loading = False, hasAdmin = False\<rparr>)
     = (\<lparr>profiles = [\<lparr>profile_id = ''u1'', profile_email = ''a@x.com'', profile_full_name = None, profile_created_at = ''2024-01-01''\<rparr>],
        user_roles = [\<lparr>user_id = ''u1'', role = User\<rparr>]\<rparr>,
        \<lparr>users = [\<lparr>u_id = ''u1'', u_email = ''a@x.com'', u_full_name = None, u_role = User, u_created_at = ''2024-01-01''\<rparr>], loading = False, hasAdmin = False\<rparr>,
        [Toast_Erro ''permission denied''])"
  using promoteCurrentUserToAdmin_upserts_then_reloads
    [of "\<lparr>auth_id = ''u1'', auth_email = ''a@x.com''\<rparr>"
        "\<lparr>profiles = [\<lparr>profile_id = ''u1'', profile_email = ''a@x.com'', profile_full_name = None, profile_created_at = ''2024-01-01''\<rparr>],
        user_roles = [\<lparr>user_id = ''u1'', role = User\<rparr>]\<rparr>"
        None None
        "\<lparr>users = [\<lparr>u_id = ''u1'', u_email = ''a@x.com'', u_full_name = None, u_role = User, u_created_at = ''2024-01-01''\<rparr>], loading = False, hasAdmin = False\<rparr>"
        "\<lparr>code = ''42501'', message = ''permission denied''\<rparr>" None]
  by (simp add: promoteCurrentUserToAdmin_ok promoteCurrentUserToAdmin_check_error
        fetchUsers_ok formattedUsers_def format_user_def adminExists_def)

text \<open>
  The write is refused by the backend: the role record still says \<open>User\<close>, and the
  component state is the one before the click, so neither the assignment nor the
  re-fetch of the claim takes place.
\<close>

theorem promoteCurrentUserToAdmin_write_error_counterexample:
  "promoteCurrentUserToAdmin (Some \<lparr>auth_id = ''u1'', auth_email = ''a@x.com''\<rparr>) None (Some \<lparr>code = ''42501'', message = ''permission denied''\<rparr>) None None
       (\<lparr>profiles = [\<lparr>profile_id = ''u1'', profile_email = ''a@x.com'', profile_full_name = None, profile_created_at = ''2024-01-01''\<rparr>],
        user_roles = [\<lparr>user_id = ''u1'', role = User\<rparr>]\<rparr>,
        \<lparr>users = [\<lparr>u_id = ''u1'', u_email = ''a@x.com'', u_full_name = None, u_role = User, u_created_at = ''2024-01-01''\<rparr>], loading = False, hasAdmin = False\<rparr>)
     = (\<lparr>profiles = [\<lparr>profile_id = ''u1'', profile_email = ''a@x.com'', profile_full_name = None, profile_created_at = ''2024-01-01''\<rparr>],
        user_roles = [\<lparr>user_id = ''u1'', role = User\<rparr>]\<rparr>,
        \<lparr>users = [\<lparr>u_id = ''u1'', u_email = ''a@x.com'', u_full_name = None, u_role = User, u_created_at = ''2024-01-01''\<rparr>], loading = False, hasAdmin = False\<rparr>,
        [Toast_Erro ''permission denied''])"
  by (simp add: promoteCurrentUserToAdmin_def select_single_def update_rows_def)

text \<open>
  \<open>promoteToAdmin\<close>: the update, then the reload. On the store it is idempotent.
\<close>

lemma promoteToAdmin_ok:
  "promoteToAdmin userId None pf rf (b, st) =
     (b\<lparr>user_roles := map (\<lambda>r. if user_id r = userId then r\<lparr>role := Admin\<rparr> else r) (user_roles b)\<rparr>,
      fst (fetchUsers (b\<lparr>user_roles := map (\<lambda>r. if user_id r = userId then r\<lparr>role := Admin\<rparr> else r) (user_roles b)\<rparr>) pf rf st),
      Toast_Sucesso # snd (fetchUsers (b\<lparr>user_roles := map (\<lambda>r. if user_id r = userId then r\<lparr>role := Admin\<rparr> else r) (user_roles b)\<rparr>) pf rf st))"
  by (simp add: promoteToAdmin_def update_rows_def split: prod.splits)

lemma promoteToAdmin_store_idempotent:
  "fst (promoteToAdmin userId None pf' rf' (fst (promoteToAdmin userId None pf rf (b, st)), st'))
     = fst (promoteToAdmin userId None pf rf (b, st))"
  by (simp add: promoteToAdmin_ok comp_def)

text \<open>
  C4, at the input where the code departs from it. The profile u1 has no role record
  (the join lists it with the role \<open>'user'\<close>, and the promote button is rendered for
  it). \<open>promoteToAdmin\<close> is run twice and the backend reports no error: both runs
  show the success toast, the store still holds no record for u1, and the reloaded
  list still shows u1 with the role \<open>User\<close>, not \<open>Admin\<close>.
\<close>

theorem promoteToAdmin_without_role_record:
  "(case promoteToAdmin ''u1'' None None None
           (\<lparr>profiles = [\<lparr>profile_id = ''u1'', profile_email = ''a@x.com'', profile_full_name = None, profile_created_at = ''2024-01-01''\<rparr>],
        user_roles = []\<rparr>,
            \<lparr>users = [\<lparr>u_id = ''u1'', u_email = ''a@x.com'', u_full_name = None, u_role = User, u_created_at = ''2024-01-01''\<rparr>], loading = False, hasAdmin = False\<rparr>) of
      (b1, st1, ts1) \<Rightarrow>
        (case promoteToAdmin ''u1'' None None None (b1, st1) of
           (b2, st2, ts2) \<Rightarrow>
             ts1 = [Toast_Sucesso] \<and> ts2 = [Toast_Sucesso]
             \<and> user_roles b1 = [] \<and> user_roles b2 = []
             \<and> map u_role (users st1) = [User] \<and> map u_role (users st2) = [User]))"
  by (simp add: promoteToAdmin_ok fetchUsers_ok formattedUsers_def format_user_def adminExists_def)

section \<open>Properties of the completed-service access\<close>

lemma getCompletedServices_ok:
  "getCompletedServices table None =
     (map to_CompletedService (rev (sort_key (\<lambda>r. column_key (created_at r)) table)), [])"
  by (simp add: getCompletedServices_def select_rows_def order_rows_def)

lemma getCompletedServices_error:
  "getCompletedServices table (Some e) = ([], [Console_error ''Error fetching completed services:'' e])"
  by (simp add: getCompletedServices_def select_rows_def)

lemma createdAt_to_CompletedService: "createdAt (to_CompletedService item) = created_at item"
  by (simp add: to_CompletedService_def)

lemma newest_first:
  "sorted_wrt (\<lambda>a b. column_key (createdAt b) \<le> column_key (createdAt a))
     (fst (getCompletedServices table None))"
proof -
  let ?key = "\<lambda>r. column_key (created_at r)"
  have "sorted (map ?key (sort_key ?key table))"
    by (rule sorted_sort_key)
  then have "sorted_wrt (\<lambda>a b. ?key a \<le> ?key b) (sort_key ?key table)"
    by (simp add: sorted_map)
  then have "sorted_wrt (\<lambda>a b. ?key b \<le> ?key a) (rev (sort_key ?key table))"
    by (simp add: sorted_wrt_rev)
  then show ?thesis
    by (simp add: getCompletedServices_ok sorted_wrt_map createdAt_to_CompletedService)
qed

lemma key_le_Val: "column_key b \<le> column_key a \<Longrightarrow> a = Val ta \<Longrightarrow> b = Val tb \<Longrightarrow> tb \<le> ta"
  by (simp add: column_key_def)

text \<open>
  C6. When the backend answers the select, \<open>getCompletedServices\<close> returns one view
  model per row of the table (as multisets, the result is the image of the table under
  the mapping), newest first: of two entries that both have a creation time, the
  earlier in the list has the later or equal time. Each entry is its row mapped field
  by field (\<open>mechanic_id\<close> through \<open>|| ""\<close>, the amounts through \<open>Number\<close>, the rest
  as they are), and nothing is logged. When the backend reports an error, the error is
  logged to the console and the result is the empty list; the function has no other
  result, so the caller sees no error.
\<close>

theorem getCompletedServices_all_newest_first:
  "(case getCompletedServices table None of
      (result, logs) \<Rightarrow>
        mset result = image_mset to_CompletedService (mset table)
        \<and> sorted_wrt (\<lambda>a b. \<forall>ta tb. createdAt a = Val ta \<and> createdAt b = Val tb \<longrightarrow> tb \<le> ta) result
        \<and> (\<forall>v \<in> set result. \<exists>item \<in> set table.
              cs_id v = row_id item
              \<and> mechanicId v = (case mechanic_id item of Val s \<Rightarrow> s | _ \<Rightarrow> [])
              \<and> serviceIds v = service_ids item
              \<and> totalAmount v = Number (total_amount item)
              \<and> receivedAmount v = Number (received_amount item)
              \<and> completionDate v = completion_date item
              \<and> createdAt v = created_at item)
        \<and> logs = [])
   \<and> getCompletedServices table (Some e) = ([], [Console_error ''Error fetching completed services:'' e])"
proof -
  let ?result = "fst (getCompletedServices table None)"
  have all: "mset ?result = image_mset to_CompletedService (mset table)"
    by (simp add: getCompletedServices_ok)
  have "sorted_wrt (\<lambda>a b. column_key (createdAt b) \<le> column_key (createdAt a)) ?result"
    by (rule newest_first)
  then have order: "sorted_wrt (\<lambda>a b. \<forall>ta tb. createdAt a = Val ta \<and> createdAt b = Val tb \<longrightarrow> tb \<le> ta) ?result"
    by (rule sorted_wrt_mono_rel [rotated]) (auto dest: key_le_Val)
  have fields: "\<exists>item \<in> set table.
              cs_id v = row_id item
              \<and> mechanicId v = (case mechanic_id item of Val s \<Rightarrow> s | _ \<Rightarrow> [])
              \<and> serviceIds v = service_ids item
              \<and> totalAmount v = Number (total_amount item)
              \<and> receivedAmount v = Number (received_amount item)
              \<and> completionDate v = completion_date item
              \<and> createdAt v = created_at item" if "v \<in> set ?result" for v
  proof -
    from that obtain item where "item \<in> set table" and "v = to_CompletedService item"
      by (auto simp: getCompletedServices_ok)
    then show ?thesis
      by (intro bexI [of _ item]) (simp_all add: to_CompletedService_def or_empty_def split: js.splits)
  qed
  have "snd (getCompletedServices table None) = []"
    by (simp add: getCompletedServices_ok)
  with all order fields show ?thesis
    by (simp add: getCompletedServices_error case_prod_beta)
qed


text \<open>Two rows, the older one first in the table: the newer one comes first in the result.\<close>

theorem getCompletedServices_all_newest_first_witness:
  "getCompletedServices
      [\<lparr>mechanic_id = Null, service_ids = Val [''s1''], total_amount = Val 100, received_amount = Val 80, completion_date = Val 5, created_at = Val (1::nat), created_by = Null, row_id = ''a''\<rparr>,
       \<lparr>mechanic_id = Val ''m1'', service_ids = Val [''s1'', ''s2''], total_amount = Val 250, received_amount = Val 250, completion_date = Val 6, created_at = Val 2, created_by = Val ''u1'', row_id = ''b''\<rparr>] None
    = ([\<lparr>mechanicId = ''m1'', serviceIds = Val [''s1'', ''s2''], totalAmount = Num 250, receivedAmount = Num 250, completionDate = Val 6, createdAt = Val 2, cs_id = ''b''\<rparr>,
        \<lparr>mechanicId = [], serviceIds = Val [''s1''], totalAmount = Num 100, receivedAmount = Num 80, completionDate = Val 5, createdAt = Val 1, cs_id = ''a''\<rparr>], [])
   \<and> (1::nat) \<le> 2"
  using getCompletedServices_all_newest_first
    [of "[\<lparr>mechanic_id = Null, service_ids = Val [''s1''], total_amount = Val 100, received_amount = Val 80, completion_date = Val 5, created_at = Val (1::nat), created_by = Null, row_id = ''a''\<rparr>,
       \<lparr>mechanic_id = Val ''m1'', service_ids = Val [''s1'', ''s2''], total_amount = Val 250, received_amount = Val 250, completion_date = Val 6, created_at = Val 2, created_by = Val ''u1'', row_id = ''b''\<rparr>]"]
  by (simp add: getCompletedServices_ok column_key_def to_CompletedService_def Number_def or_empty_def)

text \<open>
  C9. Every row of the table is mapped by \<open>to_CompletedService\<close> into the result. A row
  whose \<open>mechanic_id\<close> is \<open>null\<close> or missing gets \<open>mechanicId = ""\<close>. No other
  field has a fallback: a missing \<open>service_ids\<close>, \<open>completion_date\<close> or \<open>created_at\<close>
  stays undefined, and a missing \<open>total_amount\<close> or \<open>received_amount\<close> becomes
  \<open>Number(undefined)\<close>, which is \<open>NaN\<close>. (A \<open>null\<close> in one of these three
  fields stays \<open>null\<close>; a \<open>null\<close> amount is what \<open>Number(null)\<close> is, the number 0.)
\<close>

theorem mechanic_id_defaults_to_empty_string:
  "(item \<in> set table \<longrightarrow> to_CompletedService item \<in> set (fst (getCompletedServices table None)))
   \<and> (mechanic_id item = Null \<or> mechanic_id item = Undefined \<longrightarrow>
        mechanicId (to_CompletedService item) = [])
   \<and> (service_ids item = Undefined \<longrightarrow> serviceIds (to_CompletedService item) = Undefined)
   \<and> (total_amount item = Undefined \<longrightarrow> totalAmount (to_CompletedService item) = NaN)
   \<and> (received_amount item = Undefined \<longrightarrow> receivedAmount (to_CompletedService item) = NaN)
   \<and> (completion_date item = Undefined \<longrightarrow> completionDate (to_CompletedService item) = Undefined)
   \<and> (created_at item = Undefined \<longrightarrow> createdAt (to_CompletedService item) = Undefined)
   \<and> (service_ids item = Null \<longrightarrow> serviceIds (to_CompletedService item) = Null)
   \<and> (completion_date item = Null \<longrightarrow> completionDate (to_CompletedService item) = Null)
   \<and> (created_at item = Null \<longrightarrow> createdAt (to_CompletedService item) = Null)
   \<and> (total_amount item = Null \<longrightarrow> totalAmount (to_CompletedService item) = Num 0)
   \<and> (received_amount item = Null \<longrightarrow> receivedAmount (to_CompletedService item) = Num 0)"
proof -
  have "to_CompletedService item \<in> set (fst (getCompletedServices table None))" if "item \<in> set table"
    using that by (simp add: getCompletedServices_ok)
  moreover have "mechanicId (to_CompletedService item) = []"
    if "mechanic_id item = Null \<or> mechanic_id item = Undefined"
    using that by (auto simp: to_CompletedService_def or_empty_def)
  moreover have "totalAmount (to_CompletedService item) = NaN" if "total_amount item = Undefined"
    using that by (simp add: to_CompletedService_def Number_def)
  moreover have "receivedAmount (to_CompletedService item) = NaN" if "received_amount item = Undefined"
    using that by (simp add: to_CompletedService_def Number_def)
  moreover have "totalAmount (to_CompletedService item) = Num 0" if "total_amount item = Null"
    using that by (simp add: to_CompletedService_def Number_def)
  moreover have "receivedAmount (to_CompletedService item) = Num 0" if "received_amount item = Null"
    using that by (simp add: to_CompletedService_def Number_def)
  ultimately show ?thesis
    by (simp add: to_CompletedService_def)
qed

theorem mechanic_id_defaults_to_empty_string_witness:
  "getCompletedServices
      [(\<lparr>mechanic_id = Undefined, service_ids = Undefined, total_amount = Undefined, received_amount = Undefined, completion_date = Undefined, created_at = Undefined, created_by = Undefined, row_id = ''a''\<rparr> :: nat completed_service_row),
       \<lparr>mechanic_id = Null, service_ids = Null, total_amount = Null, received_amount = Null, completion_date = Null, created_at = Null, created_by = Null, row_id = ''b''\<rparr>] None
    = ([\<lparr>mechanicId = [], serviceIds = Null, totalAmount = Num 0, receivedAmount = Num 0,
          completionDate = Null, createdAt = Null, cs_id = ''b''\<rparr>,
        \<lparr>mechanicId = [], serviceIds = Undefined, totalAmount = NaN, receivedAmount = NaN,
          completionDate = Undefined, createdAt = Undefined, cs_id = ''a''\<rparr>], [])"
  using mechanic_id_defaults_to_empty_string
    [of "\<lparr>mechanic_id = Undefined, service_ids = Undefined, total_amount = Undefined, received_amount = Undefined, completion_date = Undefined, created_at = Undefined, created_by = Undefined, row_id = ''a''\<rparr> :: nat completed_service_row"
       "[\<lparr>mechanic_id = Undefined, service_ids = Undefined, total_amount = Undefined, received_amount = Undefined, completion_date = Undefined, created_at = Undefined, created_by = Undefined, row_id = ''a''\<rparr>,
       \<lparr>mechanic_id = Null, service_ids = Null, total_amount = Null, received_amount = Null, completion_date = Null, created_at = Null, created_by = Null, row_id = ''b''\<rparr>]"]
    mechanic_id_defaults_to_empty_string
    [of "\<lparr>mechanic_id = Null, service_ids = Null, total_amount = Null, received_amount = Null, completion_date = Null, created_at = Null, created_by = Null, row_id = ''b''\<rparr> :: nat completed_service_row"
       "[\<lparr>mechanic_id = Undefined, service_ids = Undefined, total_amount = Undefined, received_amount = Undefined, completion_date = Undefined, created_at = Undefined, created_by = Undefined, row_id = ''a''\<rparr>,
       \<lparr>mechanic_id = Null, service_ids = Null, total_amount = Null, received_amount = Null, completion_date = Null, created_at = Null, created_by = Null, row_id = ''b''\<rparr>]"]
  by (simp add: getCompletedServices_ok column_key_def to_CompletedService_def Number_def or_empty_def)

lemma addCompletedService_ok:
  "addCompletedService user new_id None sf c table =
     (table @ [new_row new_id
                \<lparr>mechanic_id = Val (mechanicId c), service_ids = serviceIds c,
                 total_amount = json_number (totalAmount c),
                 received_amount = json_number (receivedAmount c),
                 completion_date = completionDate c, created_at = createdAt c,
                 created_by = optional_id user\<rparr>],
      getCompletedServices
        (table @ [new_row new_id
                \<lparr>mechanic_id = Val (mechanicId c), service_ids = serviceIds c,
                 total_amount = json_number (totalAmount c),
                 received_amount = json_number (receivedAmount c),
                 completion_date = completionDate c, created_at = createdAt c,
                 created_by = optional_id user\<rparr>]) sf)"
  by (simp add: addCompletedService_def insert_row_def split: prod.splits)

lemma addCompletedService_insert_error:
  "addCompletedService user new_id (Some e) sf c table =
     (table, [], [Console_error ''Error adding completed service:'' e])"
  by (simp add: addCompletedService_def insert_row_def)

lemma Number_json_number: "n \<noteq> NaN \<Longrightarrow> Number (json_number n) = n"
  by (cases n) (simp_all add: Number_def json_number_def)

lemma round_trip:
  assumes "totalAmount c \<noteq> NaN" and "receivedAmount c \<noteq> NaN"
  shows "to_CompletedService
          (new_row new_id
            \<lparr>mechanic_id = Val (mechanicId c), service_ids = serviceIds c,
             total_amount = json_number (totalAmount c),
             received_amount = json_number (receivedAmount c),
             completion_date = completionDate c, created_at = createdAt c,
             created_by = cb\<rparr>)
         = \<lparr>mechanicId = mechanicId c, serviceIds = serviceIds c, totalAmount = totalAmount c,
            receivedAmount = receivedAmount c, completionDate = completionDate c,
            createdAt = createdAt c, cs_id = new_id\<rparr>"
  using assms by (simp add: to_CompletedService_def new_row_def or_empty_def Number_json_number)

text \<open>
  C5 (as amended). For a valid input, when the backend accepts the insert: the table
  gains exactly one row, the new one, whose \<open>created_by\<close> is the id of the signed-in
  user (undefined when nobody is signed in), and the result is the result of
  \<open>getCompletedServices\<close> on the new table. When that select is answered, the result
  holds the view models of the old rows and the new record with every field as it was
  passed in, under the id the backend gave it. When that select fails, the result is the
  empty list and the select's error is logged, although the record is stored. When the
  backend refuses the insert, the table is unchanged, the error is logged and the
  result is the empty list.
\<close>

theorem addCompletedService_inserts_then_lists:
  assumes valid: "valid_input c"
  shows
    "(case addCompletedService user new_id None sf c table of
        (table', result, logs) \<Rightarrow>
          length table' = Suc (length table) \<and> butlast table' = table
          \<and> row_id (last table') = new_id
          \<and> created_by (last table') = (case user of None \<Rightarrow> Undefined | Some u \<Rightarrow> Val (auth_id u))
          \<and> (result, logs) = getCompletedServices table' sf
          \<and> (sf = None \<longrightarrow>
                mset result = image_mset to_CompletedService (mset table) +
                  {#\<lparr>mechanicId = mechanicId c, serviceIds = serviceIds c, totalAmount = totalAmount c,
                      receivedAmount = receivedAmount c, completionDate = completionDate c,
                      createdAt = createdAt c, cs_id = new_id\<rparr>#}
                \<and> logs = [])
          \<and> (sf \<noteq> None \<longrightarrow>
                result = [] \<and> logs = [Console_error ''Error fetching completed services:'' (the sf)]))
     \<and> addCompletedService user new_id (Some e) sf c table =
          (table, [], [Console_error ''Error adding completed service:'' e])"
proof -
  from valid have nums: "totalAmount c \<noteq> NaN" "receivedAmount c \<noteq> NaN"
    by (simp_all add: valid_input_def)
  let ?row = "new_row new_id
                \<lparr>mechanic_id = Val (mechanicId c), service_ids = serviceIds c,
                 total_amount = json_number (totalAmount c),
                 received_amount = json_number (receivedAmount c),
                 completion_date = completionDate c, created_at = createdAt c,
                 created_by = optional_id user\<rparr>"
  have run: "addCompletedService user new_id None sf c table =
      (table @ [?row], getCompletedServices (table @ [?row]) sf)"
    by (rule addCompletedService_ok)
  have stored: "row_id ?row = new_id"
    "created_by ?row = (case user of None \<Rightarrow> Undefined | Some u \<Rightarrow> Val (auth_id u))"
    by (simp_all add: new_row_def optional_id_def)
  have listed: "mset (fst (getCompletedServices (table @ [?row]) None)) =
      image_mset to_CompletedService (mset table) +
        {#\<lparr>mechanicId = mechanicId c, serviceIds = serviceIds c, totalAmount = totalAmount c,
            receivedAmount = receivedAmount c, completionDate = completionDate c,
            createdAt = createdAt c, cs_id = new_id\<rparr>#}"
    using round_trip [OF nums] by (simp add: getCompletedServices_ok)
  have quiet: "snd (getCompletedServices (table @ [?row]) None) = []"
    by (simp add: getCompletedServices_ok)
  have failed: "getCompletedServices (table @ [?row]) (Some x) =
      ([], [Console_error ''Error fetching completed services:'' x])" for x
    by (rule getCompletedServices_error)
  show ?thesis
    unfolding run using stored listed quiet failed
    by (cases sf) (simp_all add: addCompletedService_insert_error case_prod_beta)
qed

theorem addCompletedService_inserts_then_lists_witness:
  "valid_input (\<lparr>mechanicId = ''m1'', serviceIds = Val [''s1'', ''s2''], totalAmount = Num 250, receivedAmount = Num 250, completionDate = Val 6, createdAt = Val 2\<rparr> :: nat CompletedService_without_id)
   \<and> addCompletedService (Some \<lparr>auth_id = ''u1'', auth_email = ''a@x.com''\<rparr>) ''b'' None None
        \<lparr>mechanicId = ''m1'', serviceIds = Val [''s1'', ''s2''], totalAmount = Num 250, receivedAmount = Num 250, completionDate = Val 6, createdAt = Val 2\<rparr>
        [\<lparr>mechanic_id = Null, service_ids = Val [''s1''], total_amount = Val 100, received_amount = Val 80, completion_date = Val 5, created_at = Val (1::nat), created_by = Null, row_id = ''a''\<rparr>]
      = ([\<lparr>mechanic_id = Null, service_ids = Val [''s1''], total_amount = Val 100, received_amount = Val 80, completion_date = Val 5, created_at = Val (1::nat), created_by = Null, row_id = ''a''\<rparr>,
          \<lparr>mechanic_id = Val ''m1'', service_ids = Val [''s1'', ''s2''], total_amount = Val 250, received_amount = Val 250, completion_date = Val 6, created_at = Val 2, created_by = Val ''u1'', row_id = ''b''\<rparr>],
         [\<lparr>mechanicId = ''m1'', serviceIds = Val [''s1'', ''s2''], totalAmount = Num 250, receivedAmount = Num 250, completionDate = Val 6, createdAt = Val 2, cs_id = ''b''\<rparr>,
          \<lparr>mechanicId = [], serviceIds = Val [''s1''], totalAmount = Num 100, receivedAmount = Num 80, completionDate = Val 5, createdAt = Val 1, cs_id = ''a''\<rparr>], [])
   \<and> addCompletedService (Some \<lparr>auth_id = ''u1'', auth_email = ''a@x.com''\<rparr>) ''b'' (Some \<lparr>code = ''42501'', message = ''permission denied''\<rparr>) None
        \<lparr>mechanicId = ''m1'', serviceIds = Val [''s1'', ''s2''], totalAmount = Num 250, receivedAmount = Num 250, completionDate = Val 6, createdAt = Val 2\<rparr>
        [\<lparr>mechanic_id = Null, service_ids = Val [''s1''], total_amount = Val 100, received_amount = Val 80, completion_date = Val 5, created_at = Val (1::nat), created_by = Null, row_id = ''a''\<rparr>]
      = ([\<lparr>mechanic_id = Null, service_ids = Val [''s1''], total_amount = Val 100, received_amount = Val 80, completion_date = Val 5, created_at = Val (1::nat), created_by = Null, row_id = ''a''\<rparr>],
         [], [Console_error ''Error adding completed service:'' \<lparr>code = ''42501'', message = ''permission denied''\<rparr>])"
  using addCompletedService_inserts_then_lists
    [where c = "\<lparr>mechanicId = ''m1'', serviceIds = Val [''s1'', ''s2''], totalAmount = Num 250, receivedAmount = Num 250, completionDate = Val 6, createdAt = Val 2\<rparr> :: nat CompletedService_without_id"
       and user = "Some \<lparr>auth_id = ''u1'', auth_email = ''a@x.com''\<rparr>" and new_id = "''b''" and sf = None
       and e = "\<lparr>code = ''42501'', message = ''permission denied''\<rparr>"
       and table = "[\<lparr>mechanic_id = Null, service_ids = Val [''s1''], total_amount = Val 100, received_amount = Val 80, completion_date = Val 5, created_at = Val (1::nat), created_by = Null, row_id = ''a''\<rparr>]"]
  by (simp add: valid_input_def addCompletedService_ok addCompletedService_insert_error
        getCompletedServices_ok new_row_def json_number_def optional_id_def column_key_def
        to_CompletedService_def Number_def or_empty_def)

text \<open>
  The insert succeeds and the select that follows fails: the record is in the table,
  and the list returned is empty, so it does not include the new record.
\<close>

theorem addCompletedService_reload_fails_counterexample:
  "addCompletedService (Some \<lparr>auth_id = ''u1'', auth_email = ''a@x.com''\<rparr>) ''b'' None (Some \<lparr>code = ''57014'', message = ''canceling statement due to statement timeout''\<rparr>)
        \<lparr>mechanicId = ''m1'', serviceIds = Val [''s1'', ''s2''], totalAmount = Num 250, receivedAmount = Num 250, completionDate = Val 6, createdAt = Val 2\<rparr>
        [\<lparr>mechanic_id = Null, service_ids = Val [''s1''], total_amount = Val 100, received_amount = Val 80, completion_date = Val 5, created_at = Val (1::nat), created_by = Null, row_id = ''a''\<rparr>]
      = ([\<lparr>mechanic_id = Null, service_ids = Val [''s1''], total_amount = Val 100, received_amount = Val 80, completion_date = Val 5, created_at = Val (1::nat), created_by = Null, row_id = ''a''\<rparr>,
          \<lparr>mechanic_id = Val ''m1'', service_ids = Val [''s1'', ''s2''], total_amount = Val 250, received_amount = Val 250, completion_date = Val 6, created_at = Val 2, created_by = Val ''u1'', row_id = ''b''\<rparr>],
         [], [Console_error ''Error fetching completed services:'' \<lparr>code = ''57014'', message = ''canceling statement due to statement timeout''\<rparr>])"
  by (simp add: addCompletedService_ok getCompletedServices_error new_row_def
        json_number_def optional_id_def)

section \<open>Properties of the mechanic form\<close>

lemma submit_valid:
  "name (fieldValues f) \<noteq> [] \<Longrightarrow>
     submit mechanic uuid f =
       (reset None f,
        [OnSubmit ((fieldValues f)\<lparr>m_id := (case mechanic of None \<Rightarrow> uuid | Some m \<Rightarrow> m_id m)\<rparr>),
         OnOpenChange False])"
  by (cases mechanic) (simp_all add: submit_def handleSubmit_def onSubmitForm_def reset_def Let_def)

lemma submit_invalid:
  "name (fieldValues f) = [] \<Longrightarrow>
     submit mechanic uuid f = (f\<lparr>errors_name := Some name_required\<rparr>, [])"
  by (simp add: submit_def handleSubmit_def)

text \<open>
  C7 (as amended). A submit with a non-empty name calls \<open>onSubmit\<close> once, with the
  values of the fields and, as identifier, in create mode the value that
  \<open>crypto.randomUUID()\<close> returned and in edit mode the identifier of the mechanic
  being edited; it then calls \<open>onOpenChange(false)\<close>, and the fields are back at their
  defaults with no error shown. The form does not know the existing mechanics and
  compares the new identifier with nothing: that it differs from theirs rests on the
  random generator alone.
\<close>

theorem submit_assigns_identifier:
  assumes "name (fieldValues f) \<noteq> []"
  shows "(case submit mechanic uuid f of
            (f', calls) \<Rightarrow>
              calls = [OnSubmit ((fieldValues f)\<lparr>m_id := (case mechanic of None \<Rightarrow> uuid | Some m \<Rightarrow> m_id m)\<rparr>),
                       OnOpenChange False]
              \<and> fieldValues f' = defaultValues f \<and> errors_name f' = None)"
proof (cases mechanic)
  case None
  with assms show ?thesis
    by (simp add: submit_valid reset_def)
next
  case (Some m)
  with assms show ?thesis
    by (simp add: submit_valid reset_def)
qed

theorem submit_assigns_identifier_witness:
  "name (fieldValues \<lparr>fieldValues = \<lparr>m_id = [], name = ''Bia'', specialization = Some [], phone = Some []\<rparr>,
        defaultValues = blank, errors_name = None\<rparr>) \<noteq> []
   \<and> submit None ''3b241101-e2bb-4255-8caf-4136c566a962''
       \<lparr>fieldValues = \<lparr>m_id = [], name = ''Bia'', specialization = Some [], phone = Some []\<rparr>,
        defaultValues = blank, errors_name = None\<rparr>
     = (\<lparr>fieldValues = blank, defaultValues = blank, errors_name = None\<rparr>,
        [OnSubmit \<lparr>m_id = ''3b241101-e2bb-4255-8caf-4136c566a962'', name = ''Bia'', specialization = Some [], phone = Some []\<rparr>,
         OnOpenChange False])
   \<and> submit (Some \<lparr>m_id = ''m7'', name = ''Ana'', specialization = None, phone = None\<rparr>) ''3b241101-e2bb-4255-8caf-4136c566a962''
       \<lparr>fieldValues = \<lparr>m_id = ''m7'', name = ''Ana Lima'', specialization = None, phone = None\<rparr>,
        defaultValues = \<lparr>m_id = ''m7'', name = ''Ana'', specialization = None, phone = None\<rparr>, errors_name = None\<rparr>
     = (\<lparr>fieldValues = \<lparr>m_id = ''m7'', name = ''Ana'', specialization = None, phone = None\<rparr>,
         defaultValues = \<lparr>m_id = ''m7'', name = ''Ana'', specialization = None, phone = None\<rparr>, errors_name = None\<rparr>,
        [OnSubmit \<lparr>m_id = ''m7'', name = ''Ana Lima'', specialization = None, phone = None\<rparr>,
         OnOpenChange False])"
  using submit_assigns_identifier
    [where f = "\<lparr>fieldValues = \<lparr>m_id = [], name = ''Bia'', specialization = Some [], phone = Some []\<rparr>,
        defaultValues = blank, errors_name = None\<rparr>" and mechanic = None and uuid = "''3b241101-e2bb-4255-8caf-4136c566a962''"]
  by (simp add: submit_valid reset_def)

text \<open>
  Create mode, with the generator returning the identifier an existing mechanic
  already has: the form submits it as it is.
\<close>

theorem submit_identifier_not_checked_counterexample:
  "snd (submit None ''3b241101-e2bb-4255-8caf-4136c566a962''
       \<lparr>fieldValues = \<lparr>m_id = [], name = ''Bia'', specialization = Some [], phone = Some []\<rparr>,
        defaultValues = blank, errors_name = None\<rparr>)
     = [OnSubmit \<lparr>m_id = ''3b241101-e2bb-4255-8caf-4136c566a962'', name = ''Bia'', specialization = Some [], phone = Some []\<rparr>,
        OnOpenChange False]
   \<and> ''3b241101-e2bb-4255-8caf-4136c566a962'' \<in> set (map m_id [\<lparr>m_id = ''3b241101-e2bb-4255-8caf-4136c566a962'', name = ''Ana'', specialization = None, phone = None\<rparr>])"
  by (simp add: submit_valid)

text \<open>
  C8. A submit with an empty name calls neither \<open>onSubmit\<close> nor \<open>onOpenChange\<close>,
  shows the message of the \<open>required\<close> rule under the name field and leaves the fields
  as they are. A submit with a non-empty name goes through whatever \<open>specialization\<close>
  and \<open>phone\<close> hold (empty included), and passes them on unchanged: the name is the
  only required field.
\<close>

theorem submit_empty_name_rejected:
  "(name (fieldValues f) = [] \<longrightarrow>
      snd (submit mechanic uuid f) = []
      \<and> name_error_shown (fst (submit mechanic uuid f)) = Some name_required
      \<and> fieldValues (fst (submit mechanic uuid f)) = fieldValues f)
   \<and> (name (fieldValues f) \<noteq> [] \<longrightarrow>
        (\<exists>data. snd (submit mechanic uuid f) = [OnSubmit data, OnOpenChange False]
                \<and> specialization data = specialization (fieldValues f)
                \<and> phone data = phone (fieldValues f))
        \<and> name_error_shown (fst (submit mechanic uuid f)) = None)"
proof (cases "name (fieldValues f) = []")
  case True
  then show ?thesis
    by (simp add: submit_invalid name_error_shown_def)
next
  case False
  then show ?thesis
    by (simp add: submit_valid name_error_shown_def reset_def)
qed

theorem submit_empty_name_rejected_witness:
  "name (fieldValues \<lparr>fieldValues = \<lparr>m_id = [], name = [], specialization = Some ''Freios'', phone = Some ''11 5550 0000''\<rparr>,
        defaultValues = blank, errors_name = None\<rparr>) = []
   \<and> submit None ''3b241101-e2bb-4255-8caf-4136c566a962''
       \<lparr>fieldValues = \<lparr>m_id = [], name = [], specialization = Some ''Freios'', phone = Some ''11 5550 0000''\<rparr>,
        defaultValues = blank, errors_name = None\<rparr>
     = (\<lparr>fieldValues = \<lparr>m_id = [], name = [], specialization = Some ''Freios'', phone = Some ''11 5550 0000''\<rparr>,
        defaultValues = blank, errors_name = Some name_required\<rparr>, [])
   \<and> name (fieldValues \<lparr>fieldValues = \<lparr>m_id = [], name = ''Bia'', specialization = Some [], phone = Some []\<rparr>,
        defaultValues = blank, errors_name = None\<rparr>) \<noteq> []
   \<and> snd (submit None ''3b241101-e2bb-4255-8caf-4136c566a962''
       \<lparr>fieldValues = \<lparr>m_id = [], name = ''Bia'', specialization = Some [], phone = Some []\<rparr>,
        defaultValues = blank, errors_name = None\<rparr>)
     = [OnSubmit \<lparr>m_id = ''3b241101-e2bb-4255-8caf-4136c566a962'', name = ''Bia'', specialization = Some [], phone = Some []\<rparr>,
        OnOpenChange False]"
  using submit_empty_name_rejected
    [where f = "\<lparr>fieldValues = \<lparr>m_id = [], name = [], specialization = Some ''Freios'', phone = Some ''11 5550 0000''\<rparr>,
        defaultValues = blank, errors_name = None\<rparr>" and mechanic = None and uuid = "''3b241101-e2bb-4255-8caf-4136c566a962''"]
    submit_empty_name_rejected
    [where f = "\<lparr>fieldValues = \<lparr>m_id = [], name = ''Bia'', specialization = Some [], phone = Some []\<rparr>,
        defaultValues = blank, errors_name = None\<rparr>" and mechanic = None and uuid = "''3b241101-e2bb-4255-8caf-4136c566a962''"]
  by (simp add: submit_valid submit_invalid)

end
